theory Spec2Isabelle
  imports Main "HOL-Library.Sublist"
begin

section \<open>Python strings\<close>

text \<open>
  A Python \<open>str\<close> is a sequence of Unicode code points, and \<open>len\<close>, slicing and
  \<open>replace\<close> count code points. A string is therefore a list of code points, each a
  natural number; \<open>lit\<close> turns an ASCII literal into such a list.
\<close>

type_synonym pystr = "nat list"

definition lit :: "string \<Rightarrow> pystr" where
  "lit s = map of_char s"

text \<open>\<open>str.isspace\<close> on one code point: the characters \<open>str.strip()\<close> removes.\<close>

definition isspace :: "nat \<Rightarrow> bool" where
  "isspace c =
     ((9 \<le> c \<and> c \<le> 13) \<or> (28 \<le> c \<and> c \<le> 32) \<or> c = 133 \<or> c = 160 \<or> c = 5760
      \<or> (8192 \<le> c \<and> c \<le> 8202) \<or> c = 8232 \<or> c = 8233 \<or> c = 8239 \<or> c = 8287
      \<or> c = 12288)"

text \<open>\<open>s.strip()\<close>: leading and trailing whitespace removed.\<close>

definition strip :: "pystr \<Rightarrow> pystr" where
  "strip s = rev (dropWhile isspace (rev (dropWhile isspace s)))"

text \<open>
  \<open>s.replace(old, new)\<close>: the occurrences of \<open>old\<close> are found from left to right,
  without overlap, and each is replaced. With an empty \<open>old\<close>, \<open>new\<close> is inserted
  before every character and at the end.
\<close>

function replace :: "pystr \<Rightarrow> pystr \<Rightarrow> pystr \<Rightarrow> pystr" where
  "replace old new s =
     (if old = [] then new @ concat (map (\<lambda>c. c # new) s)
      else if s = [] then []
      else if prefix old s then new @ replace old new (drop (length old) s)
      else hd s # replace old new (tl s))"
  by pat_completeness auto
termination
  by (relation "measure (\<lambda>(old, new, s). length s)") auto

declare replace.simps [simp del]

text \<open>\<open>sub in s\<close>: \<open>sub\<close> occurs in \<open>s\<close> as a contiguous substring.\<close>

fun contains :: "pystr \<Rightarrow> pystr \<Rightarrow> bool" where
  "contains sub [] = (sub = [])"
| "contains sub (c # cs) = (prefix sub (c # cs) \<or> contains sub cs)"

text \<open>\<open>s.startswith((p1, p2))\<close> with a tuple of prefixes.\<close>

definition startswith :: "pystr \<Rightarrow> pystr list \<Rightarrow> bool" where
  "startswith s ps = list_ex (\<lambda>p. prefix p s) ps"

section \<open>Values of \<open>json.loads\<close>\<close>

text \<open>
  The Python objects \<open>json.loads\<close> can return. A float keeps the text of its literal
  (\<open>NaN\<close>, \<open>Infinity\<close> and \<open>-Infinity\<close> included): the handler only asks whether a value
  is an \<open>int\<close>. A dict is the list of its pairs in the order of the text; a later pair
  with the same key overrides an earlier one.
\<close>

datatype json =
    JNone
  | JBool bool
  | JInt int
  | JFloat pystr
  | JStr pystr
  | JList "json list"
  | JDict "(pystr \<times> json) list"

text \<open>\<open>d.get(key, default)\<close> on a dict.\<close>

definition dict_get :: "(pystr \<times> json) list \<Rightarrow> pystr \<Rightarrow> json \<Rightarrow> json" where
  "dict_get d k dflt = (case map_of (rev d) k of None \<Rightarrow> dflt | Some v \<Rightarrow> v)"

text \<open>\<open>type(v).__name__\<close>, as it appears in the text of an \<open>AttributeError\<close>.\<close>

fun type_name :: "json \<Rightarrow> pystr" where
  "type_name JNone = lit ''NoneType''"
| "type_name (JBool b) = lit ''bool''"
| "type_name (JInt i) = lit ''int''"
| "type_name (JFloat f) = lit ''float''"
| "type_name (JStr s) = lit ''str''"
| "type_name (JList xs) = lit ''list''"
| "type_name (JDict d) = lit ''dict''"

section \<open>\<open>json.loads\<close>\<close>

text \<open>
  The decoder of the standard library (the C scanner CPython uses by default, strict
  mode), as far as its result goes: the value, or \<open>None\<close> where it raises
  \<open>JSONDecodeError\<close>. The text is cut into tokens, with the whitespace
  \<open>' \t\n\r'\<close> allowed between any two, and the tokens are parsed with a stack of the
  open arrays and objects. The interpreter's limits (recursion depth, the digits of
  an integer literal) are not part of the model.
\<close>

definition json_ws :: "nat \<Rightarrow> bool" where
  "json_ws c = (c = 32 \<or> c = 9 \<or> c = 10 \<or> c = 13)"

definition is_digit :: "nat \<Rightarrow> bool" where
  "is_digit c = (48 \<le> c \<and> c \<le> 57)"

definition hexval :: "nat \<Rightarrow> nat option" where
  "hexval c =
     (if 48 \<le> c \<and> c \<le> 57 then Some (c - 48)
      else if 65 \<le> c \<and> c \<le> 70 then Some (c - 55)
      else if 97 \<le> c \<and> c \<le> 102 then Some (c - 87)
      else None)"

text \<open>The four hexadecimal digits of a \<open>\uXXXX\<close> escape.\<close>

fun hex4 :: "pystr \<Rightarrow> (nat \<times> pystr) option" where
  "hex4 (a # b # c # d # rest) =
     (case (hexval a, hexval b, hexval c, hexval d) of
        (Some w, Some x, Some y, Some z) \<Rightarrow> Some (((w * 16 + x) * 16 + y) * 16 + z, rest)
      | _ \<Rightarrow> None)"
| "hex4 _ = None"

text \<open>The character a one-letter escape stands for.\<close>

definition unescape :: "nat \<Rightarrow> nat option" where
  "unescape e =
     (if e = 34 \<or> e = 92 \<or> e = 47 then Some e
      else if e = 98 then Some 8
      else if e = 102 then Some 12
      else if e = 110 then Some 10
      else if e = 114 then Some 13
      else if e = 116 then Some 9
      else None)"

definition is_high_surrogate :: "nat \<Rightarrow> bool" where
  "is_high_surrogate u = (55296 \<le> u \<and> u \<le> 56319)"

definition is_low_surrogate :: "nat \<Rightarrow> bool" where
  "is_low_surrogate u = (56320 \<le> u \<and> u \<le> 57343)"

definition join_surrogates :: "nat \<Rightarrow> nat \<Rightarrow> nat" where
  "join_surrogates hi lo = 65536 + (hi - 55296) * 1024 + (lo - 56320)"

definition cons_str :: "nat \<Rightarrow> (pystr \<times> pystr) option \<Rightarrow> (pystr \<times> pystr) option" where
  "cons_str c r = (case r of None \<Rightarrow> None | Some (str, rest) \<Rightarrow> Some (c # str, rest))"

text \<open>
  \<open>scanstring\<close>, called after the opening quote: the decoded string and the text after
  the closing quote. A raw control character, an unknown escape and a missing closing
  quote are errors. A high surrogate escape followed by a low surrogate escape is one
  code point; a lone surrogate is kept.
\<close>

function scanstring :: "pystr \<Rightarrow> (pystr \<times> pystr) option" where
  "scanstring [] = None"
| "scanstring (c # cs) =
     (if c = 34 then Some ([], cs)
      else if c = 92 then
        (case cs of
           [] \<Rightarrow> None
         | e # es \<Rightarrow>
             if e = 117 then
               (case hex4 es of
                  None \<Rightarrow> None
                | Some (u, r) \<Rightarrow>
                    if is_high_surrogate u \<and> prefix [92, 117] r then
                      (case hex4 (drop 2 r) of
                         None \<Rightarrow> None
                       | Some (u2, r2) \<Rightarrow>
                           if is_low_surrogate u2
                           then cons_str (join_surrogates u u2) (scanstring r2)
                           else cons_str u (scanstring r))
                    else cons_str u (scanstring r))
             else
               (case unescape e of
                  None \<Rightarrow> None
                | Some ch \<Rightarrow> cons_str ch (scanstring es)))
      else if c < 32 then None
      else cons_str c (scanstring cs))"
  by pat_completeness auto
termination
proof -
  have hex4_length: "length s = length r + 4" if "hex4 s = Some (u, r)" for s u r
    using that by (induction s rule: hex4.induct) (auto split: option.splits)
  show ?thesis
    by (relation "measure length") (auto dest!: hex4_length)
qed

text \<open>The number of leading decimal digits, and the value of a digit string.\<close>

definition span_digits :: "pystr \<Rightarrow> nat" where
  "span_digits s = length (takeWhile is_digit s)"

definition decimal :: "pystr \<Rightarrow> nat" where
  "decimal ds = foldl (\<lambda>a d. a * 10 + (d - 48)) 0 ds"

text \<open>
  The scanner's number matcher: an optional \<open>-\<close>, then \<open>0\<close> or a digit string
  that does not start with \<open>0\<close>, then a fraction if a \<open>.\<close> and a digit follow, then
  an exponent if \<open>e\<close> or \<open>E\<close>, an optional sign and a digit follow. Without fraction
  and exponent the value is an \<open>int\<close>, otherwise a \<open>float\<close>. The three parts are
  measured by \<open>int_len\<close>, \<open>frac_len\<close> and \<open>exp_len\<close>.
\<close>

definition int_len :: "pystr \<Rightarrow> nat" where
  "int_len s =
     (case s of
        [] \<Rightarrow> 0
      | d # r \<Rightarrow> if \<not> is_digit d then 0 else if d = 48 then 1 else 1 + span_digits r)"

definition frac_len :: "pystr \<Rightarrow> nat" where
  "frac_len s =
     (case s of
        p # f # r \<Rightarrow> if p = 46 \<and> is_digit f then 2 + span_digits r else 0
      | _ \<Rightarrow> 0)"

definition exp_len :: "pystr \<Rightarrow> nat" where
  "exp_len s =
     (case s of
        [] \<Rightarrow> 0
      | e # r \<Rightarrow>
          if e = 101 \<or> e = 69 then
            (let slen = (if prefix [43] r \<or> prefix [45] r then 1 else 0);
                 dlen = span_digits (drop slen r)
             in if dlen = 0 then 0 else 1 + slen + dlen)
          else 0)"

definition match_number :: "pystr \<Rightarrow> (json \<times> pystr) option" where
  "match_number s =
     (let sign = (if prefix [45] s then 1 else 0);
          ilen = int_len (drop sign s)
      in if ilen = 0 then None
         else
           let flen = frac_len (drop (sign + ilen) s);
               elen = exp_len (drop (sign + ilen + flen) s);
               total = sign + ilen + flen + elen
           in Some (if flen = 0 \<and> elen = 0
                    then JInt ((if sign = 1 then - 1 else 1)
                               * int (decimal (take ilen (drop sign s))))
                    else JFloat (take total s),
                    drop total s))"

text \<open>
  What the scanner reads where a value starts with none of \<open>"\<close>, \<open>{\<close> and \<open>[\<close>: one
  of the constants, or a number.
\<close>

definition scan_literal :: "pystr \<Rightarrow> (json \<times> pystr) option" where
  "scan_literal s =
     (if prefix (lit ''null'') s then Some (JNone, drop 4 s)
      else if prefix (lit ''true'') s then Some (JBool True, drop 4 s)
      else if prefix (lit ''false'') s then Some (JBool False, drop 5 s)
      else if prefix (lit ''NaN'') s then Some (JFloat (lit ''NaN''), drop 3 s)
      else if prefix (lit ''Infinity'') s then Some (JFloat (lit ''Infinity''), drop 8 s)
      else if prefix (lit ''-Infinity'') s then Some (JFloat (lit ''-Infinity''), drop 9 s)
      else match_number s)"

datatype token = LBrace | RBrace | LBracket | RBracket | Colon | Comma | Str pystr | Atom json

definition cons_tok :: "token \<Rightarrow> token list option \<Rightarrow> token list option" where
  "cons_tok t r = map_option ((#) t) r"

function tokenize :: "pystr \<Rightarrow> token list option" where
  "tokenize [] = Some []"
| "tokenize (c # cs) =
     (if json_ws c then tokenize cs
      else if c = 123 then cons_tok LBrace (tokenize cs)
      else if c = 125 then cons_tok RBrace (tokenize cs)
      else if c = 91 then cons_tok LBracket (tokenize cs)
      else if c = 93 then cons_tok RBracket (tokenize cs)
      else if c = 58 then cons_tok Colon (tokenize cs)
      else if c = 44 then cons_tok Comma (tokenize cs)
      else if c = 34 then
        (case scanstring cs of
           None \<Rightarrow> None
         | Some (str, rest) \<Rightarrow> cons_tok (Str str) (tokenize rest))
      else
        (case scan_literal (c # cs) of
           None \<Rightarrow> None
         | Some (v, rest) \<Rightarrow> cons_tok (Atom v) (tokenize rest)))"
  by pat_completeness auto
termination
proof -
  have hex4_length: "length s = length r + 4" if "hex4 s = Some (u, r)" for s u r
    using that by (induction s rule: hex4.induct) (auto split: option.splits)
  have cons_strD: "\<exists>str'. q = Some (str', r)" if "cons_str x q = Some (str, r)" for x q str r
    using that by (auto simp: cons_str_def split: option.splits)
  have step: "r = cs \<or> (\<exists>t str'. length t \<le> length cs \<and> scanstring t = Some (str', r))"
    if "scanstring (c # cs) = Some (str, r)" for c cs str r
    using that
    apply (simp split: if_splits list.splits option.splits prod.splits)
    apply (auto dest!: hex4_length cons_strD)
    done
  have str_shorter: "length r \<le> length s" if "scanstring s = Some (str, r)" for s str r
    using that
  proof (induction "length s" arbitrary: s str rule: less_induct)
    case less
    show ?case
    proof (cases s)
      case Nil
      with less.prems show ?thesis by simp
    next
      case (Cons c cs)
      with less.prems step [of c cs str r]
      consider "r = cs" | t str' where "length t \<le> length cs" "scanstring t = Some (str', r)"
        by blast
      then show ?thesis
      proof cases
        case 1
        with Cons show ?thesis by simp
      next
        case 2
        with less.hyps [of t str'] Cons show ?thesis by simp
      qed
    qed
  qed
  have num_shorter: "length r < length s" if "match_number s = Some (v, r)" "s \<noteq> []" for s v r
    using that by (auto simp: match_number_def Let_def split: if_splits)
  have lit_shorter: "length r < length s" if "scan_literal s = Some (v, r)" "s \<noteq> []" for s v r
    using that by (auto simp: scan_literal_def dest: num_shorter split: if_splits)
  show ?thesis
  proof (relation "measure length")
    fix c cs x str rest
    assume "scanstring cs = Some x" "(str, rest) = x"
    then show "(rest, c # cs) \<in> measure length"
      using str_shorter [of cs str rest] by simp
  next
    fix c cs x v rest
    assume "scan_literal (c # cs) = Some x" "(v, rest) = x"
    then show "(rest, c # cs) \<in> measure length"
      using lit_shorter [of "c # cs" v rest] by simp
  qed simp_all
qed

text \<open>
  The parser proper. The stack holds, for each open array, the items read so far, and
  for each open object, the pairs read so far and the key whose value is being read.
  \<open>parse_value\<close> is where the decoder expects a value, \<open>parse_rest\<close> where it has
  just read one. Keys are strings; a comma is followed by another item; after the
  outermost value nothing but whitespace may follow.
\<close>

datatype frame = InList "json list" | InDict "(pystr \<times> json) list" pystr

fun parse_value :: "frame list \<Rightarrow> token list \<Rightarrow> json option"
  and parse_rest :: "json \<Rightarrow> frame list \<Rightarrow> token list \<Rightarrow> json option" where
  "parse_value st [] = None"
| "parse_value st (t # ts) =
     (case t of
        Atom v \<Rightarrow> parse_rest v st ts
      | Str s \<Rightarrow> parse_rest (JStr s) st ts
      | LBracket \<Rightarrow>
          (case ts of
             RBracket # ts' \<Rightarrow> parse_rest (JList []) st ts'
           | _ \<Rightarrow> parse_value (InList [] # st) ts)
      | LBrace \<Rightarrow>
          (case ts of
             RBrace # ts' \<Rightarrow> parse_rest (JDict []) st ts'
           | Str k # Colon # ts' \<Rightarrow> parse_value (InDict [] k # st) ts'
           | _ \<Rightarrow> None)
      | _ \<Rightarrow> None)"
| "parse_rest v [] ts = (if ts = [] then Some v else None)"
| "parse_rest v (f # st) [] = None"
| "parse_rest v (InList xs # st) (t # ts) =
     (case t of
        Comma \<Rightarrow> parse_value (InList (xs @ [v]) # st) ts
      | RBracket \<Rightarrow> parse_rest (JList (xs @ [v])) st ts
      | _ \<Rightarrow> None)"
| "parse_rest v (InDict ps k # st) (t # ts) =
     (case t of
        Comma \<Rightarrow>
          (case ts of
             Str k' # Colon # ts' \<Rightarrow> parse_value (InDict (ps @ [(k, v)]) k' # st) ts'
           | _ \<Rightarrow> None)
      | RBrace \<Rightarrow> parse_rest (JDict (ps @ [(k, v)])) st ts
      | _ \<Rightarrow> None)"

text \<open>\<open>json.loads(s)\<close>: the value, or \<open>None\<close> for \<open>JSONDecodeError\<close>.\<close>

definition json_loads :: "pystr \<Rightarrow> json option" where
  "json_loads s = (case tokenize s of None \<Rightarrow> None | Some ts \<Rightarrow> parse_value [] ts)"

section \<open>The collaborators of the handler\<close>

text \<open>
  The exceptions the handler can meet. \<open>JSONDecodeError\<close> is raised by \<open>json.loads\<close>
  and is a \<open>ValueError\<close>; \<open>ValueError\<close> is raised by the handler's own check of the
  score; \<open>AttributeError\<close> is raised when \<open>strip\<close> or \<open>get\<close> is called on an object
  that has no such method; \<open>ExternalError\<close> stands for any \<open>Exception\<close> raised by a
  collaborator (reading the upload, the AI service), with the text \<open>str(e)\<close>. All of
  them are instances of \<open>Exception\<close>.
\<close>

datatype exn =
    JSONDecodeError
  | ValueError pystr
  | AttributeError pystr
  | ExternalError pystr

text \<open>
  \<open>str(e)\<close>. The text of a \<open>JSONDecodeError\<close> is not modelled: the handler only
  prints it, since the inner \<open>except\<close> clause catches every such error.
\<close>

fun exn_str :: "exn \<Rightarrow> pystr" where
  "exn_str JSONDecodeError = []"
| "exn_str (ValueError m) = m"
| "exn_str (AttributeError m) = m"
| "exn_str (ExternalError m) = m"

text \<open>\<open>AttributeError\<close> for a missing method, as CPython words it.\<close>

definition no_attribute :: "pystr \<Rightarrow> pystr \<Rightarrow> exn" where
  "no_attribute tname attr =
     AttributeError ([39] @ tname @ [39] @ lit '' object has no attribute '' @ [39] @ attr @ [39])"

text \<open>The object \<open>client.files.upload\<close> returns; it is truthy, whatever its name.\<close>

record uploaded =
  name :: "pystr option"

text \<open>The object \<open>client.models.generate_content\<close> returns; \<open>response.text\<close> may be \<open>None\<close>.\<close>

record response =
  response_text :: "pystr option"

text \<open>
  The AI service client, as the handler uses it in one request: what each of its
  three calls answers, an exception (\<open>Inl\<close>) or a result. The arguments of
  \<open>generate_content\<close> are the model name, the system instruction, the prompt and the
  uploaded file; building the request parts belongs to that call.
\<close>

record service =
  files_upload :: "nat list \<Rightarrow> pystr option \<Rightarrow> exn + uploaded"
  generate_content :: "pystr \<Rightarrow> pystr \<Rightarrow> pystr \<Rightarrow> uploaded \<Rightarrow> exn + response"
  files_delete :: "pystr option \<Rightarrow> exn + unit"

text \<open>The calls made to the AI service, in order, with their arguments.\<close>

datatype event =
    UploadCall "nat list" "pystr option"
  | GenerateCall pystr pystr pystr uploaded
  | DeleteCall "pystr option"

text \<open>
  The request: the two form fields and the upload, with its declared media type
  (\<open>resume_file.content_type\<close>, which may be \<open>None\<close>) and what reading it gives.
\<close>

record request =
  job_description :: pystr
  job_title :: pystr
  content_type :: "pystr option"
  file_read :: "exn + nat list"

text \<open>The dict the handler returns. The two values taken from the model's answer are
  Python objects of any JSON type.\<close>

record analysis_result =
  success :: bool
  matchScore :: json
  suggestions :: json

text \<open>
  How a call of the handler ends: it returns a result, it raises an \<open>HTTPException\<close>
  with a status code and a detail, or another exception leaves it unhandled.
\<close>

datatype outcome =
    Returned analysis_result
  | HTTPException nat pystr
  | Unhandled exn

section \<open>The handler\<close>

definition accepted_prefixes :: "pystr list" where
  "accepted_prefixes =
     [lit ''application/pdf'',
      lit ''application/vnd.openxmlformats-officedocument.wordprocessingml'']"

text \<open>
  The condition of the first \<open>if\<close>: the media type is truthy (neither \<open>None\<close> nor the
  empty string) and starts with none of the accepted prefixes.
\<close>

definition invalid_file_type :: "pystr option \<Rightarrow> bool" where
  "invalid_file_type file_mime_type =
     (case file_mime_type of
        None \<Rightarrow> False
      | Some m \<Rightarrow> m \<noteq> [] \<and> \<not> startswith m accepted_prefixes)"

definition mock_suggestions :: pystr where
  "mock_suggestions =
     [9888, 65039] @ lit '' MOCK DATA: Missing '' @ [39] @ lit ''DevOps'' @ [39]
     @ lit '' and '' @ [39] @ lit ''Kubernetes'' @ [39]
     @ lit ''. Add these to your experience section. (API Key not configured.)''"

definition mock_result :: analysis_result where
  "mock_result = \<lparr>success = True, matchScore = JInt 75, suggestions = JStr mock_suggestions\<rparr>"

definition system_instruction :: pystr where
  "system_instruction =
     lit ''You are an expert Applicant Tracking System (ATS) optimization engine. ''
     @ lit ''Analyze the provided Resume file against the Job Description. ''
     @ lit ''Your output MUST be a single JSON object with the keys ''
     @ [39] @ lit ''matchScore'' @ [39] @ lit '' (integer percentage) and ''
     @ [39] @ lit ''suggestions'' @ [39]
     @ lit '' (string with detailed, actionable bullet points for improvement).''
     @ lit ''Do NOT include any preamble or extra text outside the JSON object.''"

definition prompt :: "pystr \<Rightarrow> pystr \<Rightarrow> pystr" where
  "prompt title description =
     lit ''Analyze this resume against the following job description for the role: ''
     @ title @ [10, 10]
     @ lit ''**Job Description:**'' @ [10] @ description @ [10, 10]
     @ lit ''Provide the ATS Match Score and detailed, actionable suggestions for ''
     @ lit ''improving the resume'' @ [39] @ lit ''s alignment with the job description. ''
     @ lit ''Your response must be a single JSON object.''"

definition model_name :: pystr where
  "model_name = lit ''gemini-2.5-flash''"

definition default_suggestions :: pystr where
  "default_suggestions = lit ''No detailed suggestions provided by AI.''"

definition parse_error_marker :: pystr where
  "parse_error_marker = lit ''Error: Could not parse structured output from AI. Raw response: ''"

text \<open>The fence markers are removed wherever they occur, after \<open>strip\<close>.\<close>

definition strip_fences :: "pystr \<Rightarrow> pystr" where
  "strip_fences t = replace (lit ''```'') [] (replace (lit ''```json'') [] (strip t))"

text \<open>
  \<open>isinstance(v, int)\<close>, with the integer the comparisons then see: \<open>bool\<close> is a
  subclass of \<open>int\<close>, \<open>True\<close> is 1 and \<open>False\<close> is 0.
\<close>

fun as_int :: "json \<Rightarrow> int option" where
  "as_int (JInt i) = Some i"
| "as_int (JBool b) = Some (if b then 1 else 0)"
| "as_int v = None"

text \<open>
  The body of the inner \<open>try\<close>: the two values, or the exception raised.
  \<open>get\<close> exists on a dict only.
\<close>

definition parse_body :: "pystr \<Rightarrow> exn + (json \<times> json)" where
  "parse_body t =
     (case json_loads (strip_fences t) of
        None \<Rightarrow> Inl JSONDecodeError
      | Some ai_result \<Rightarrow>
          (case ai_result of
             JDict d \<Rightarrow>
               let match_score = dict_get d (lit ''matchScore'') (JInt 0);
                   suggs = dict_get d (lit ''suggestions'') (JStr default_suggestions)
               in (case as_int match_score of
                     None \<Rightarrow> Inl (ValueError (lit ''Match score is invalid.''))
                   | Some n \<Rightarrow>
                       if n < 0 \<or> n > 100 then Inl (ValueError (lit ''Match score is invalid.''))
                       else Inr (match_score, suggs))
           | _ \<Rightarrow> Inl (no_attribute (type_name ai_result) (lit ''get''))))"

definition fallback_result :: "pystr \<Rightarrow> analysis_result" where
  "fallback_result t =
     \<lparr>success = True, matchScore = JInt 50,
      suggestions = JStr (parse_error_marker @ take 200 t @ lit ''...'')\<rparr>"

text \<open>
  Steps 6 and 7: the inner \<open>try\<close> with its \<open>except (json.JSONDecodeError, ValueError)\<close>,
  and the \<open>return\<close>. A response without text makes \<open>response.text.strip()\<close> raise.
\<close>

definition parse_response :: "pystr option \<Rightarrow> exn + analysis_result" where
  "parse_response rt =
     (case rt of
        None \<Rightarrow> Inl (no_attribute (lit ''NoneType'') (lit ''strip''))
      | Some t \<Rightarrow>
          (case parse_body t of
             Inr (match_score, suggs) \<Rightarrow>
               Inr \<lparr>success = True, matchScore = match_score, suggestions = suggs\<rparr>
           | Inl JSONDecodeError \<Rightarrow> Inr (fallback_result t)
           | Inl (ValueError m) \<Rightarrow> Inr (fallback_result t)
           | Inl e \<Rightarrow> Inl e))"

text \<open>
  The body of the outer \<open>try\<close>: what it returns or raises, the value of
  \<open>uploaded_file\<close> when it ends, and the calls it made.
\<close>

definition try_block ::
    "service \<Rightarrow> request \<Rightarrow> (exn + analysis_result) \<times> uploaded option \<times> event list" where
  "try_block client req =
     (case file_read req of
        Inl e \<Rightarrow> (Inl e, None, [])
      | Inr file_bytes \<Rightarrow>
          (case files_upload client file_bytes (content_type req) of
             Inl e \<Rightarrow> (Inl e, None, [UploadCall file_bytes (content_type req)])
           | Inr uploaded_file \<Rightarrow>
               let p = prompt (job_title req) (job_description req);
                   calls = [UploadCall file_bytes (content_type req),
                            GenerateCall model_name system_instruction p uploaded_file]
               in (case generate_content client model_name system_instruction p uploaded_file of
                     Inl e \<Rightarrow> (Inl e, Some uploaded_file, calls)
                   | Inr resp \<Rightarrow>
                       (parse_response (response_text resp), Some uploaded_file, calls))))"

definition service_error_detail :: pystr where
  "service_error_detail =
     lit ''AI Service Error: Failed to process file. Check API keys and Vercel logs. Error: ''"

text \<open>\<open>except Exception as e\<close>: every exception of the body becomes a 500.\<close>

definition except_block :: "exn + analysis_result \<Rightarrow> outcome" where
  "except_block r =
     (case r of
        Inr res \<Rightarrow> Returned res
      | Inl e \<Rightarrow> HTTPException 500 (service_error_detail @ exn_str e))"

text \<open>
  \<open>finally\<close>: the upload is deleted if there is one. An exception of the deletion
  replaces the pending return value or exception.
\<close>

definition finally_block ::
    "service \<Rightarrow> uploaded option \<Rightarrow> outcome \<Rightarrow> event list \<Rightarrow> outcome \<times> event list" where
  "finally_block client uploaded_file out calls =
     (case uploaded_file of
        None \<Rightarrow> (out, calls)
      | Some f \<Rightarrow>
          (case files_delete client (name f) of
             Inr u \<Rightarrow> (out, calls @ [DeleteCall (name f)])
           | Inl e \<Rightarrow> (Unhandled e, calls @ [DeleteCall (name f)])))"

text \<open>
  Step 3B, what the handler does once the file type is accepted. \<open>client\<close> is the
  module state: \<open>None\<close> when constructing the client failed at start
  (\<open>GEMINI_CONFIGURED = False\<close>), the client otherwise.
\<close>

definition core_logic :: "service option \<Rightarrow> request \<Rightarrow> outcome \<times> event list" where
  "core_logic client req =
     (case client of
        None \<Rightarrow> (Returned mock_result, [])
      | Some c \<Rightarrow>
          (case try_block c req of
             (r, uploaded_file, calls) \<Rightarrow>
               finally_block c uploaded_file (except_block r) calls))"

text \<open>The handler: its outcome and the calls it made to the AI service.\<close>

definition ats_optimize_resume :: "service option \<Rightarrow> request \<Rightarrow> outcome \<times> event list" where
  "ats_optimize_resume client req =
     (if invalid_file_type (content_type req)
      then (HTTPException 400 (lit ''Invalid file type. Please upload a PDF or DOCX.''), [])
      else core_logic client req)"

text \<open>The names of the files whose deletion was asked for, in order.\<close>

fun deletions :: "event list \<Rightarrow> pystr option list" where
  "deletions [] = []"
| "deletions (DeleteCall n # es) = n # deletions es"
| "deletions (e # es) = deletions es"

section \<open>Where the strings of a parsed value come from\<close>




section \<open>Example requests and services\<close>

text \<open>A request with a PDF upload that reads without error.\<close>

definition pdf_request :: request where
  "pdf_request =
     \<lparr>job_description = lit ''Build and run services.'', job_title = lit ''Engineer'',
      content_type = Some (lit ''application/pdf''), file_read = Inr [37, 80, 68, 70]\<rparr>"

text \<open>The same upload with a present but empty media type.\<close>

definition empty_type_request :: request where
  "empty_type_request = pdf_request\<lparr>content_type := Some []\<rparr>"

text \<open>The same request with an image as upload.\<close>

definition png_request :: request where
  "png_request = pdf_request\<lparr>content_type := Some (lit ''image/png'')\<rparr>"

text \<open>A service that stores the file, answers with the given text and deletes the file.\<close>

definition answering :: "pystr option \<Rightarrow> service" where
  "answering t =
     \<lparr>files_upload = (\<lambda>b m. Inr \<lparr>name = Some (lit ''files/r1'')\<rparr>),
      generate_content = (\<lambda>m i p f. Inr \<lparr>response_text = t\<rparr>),
      files_delete = (\<lambda>n. Inr ())\<rparr>"

text \<open>Services whose upload, generation or deletion call fails.\<close>

definition failing_upload :: service where
  "failing_upload =
     (answering None)\<lparr>files_upload := (\<lambda>b m. Inl (ExternalError (lit ''401 UNAUTHENTICATED'')))\<rparr>"

definition failing_generation :: service where
  "failing_generation =
     (answering None)\<lparr>generate_content := (\<lambda>m i p f. Inl (ExternalError (lit ''503 UNAVAILABLE'')))\<rparr>"

definition failing_deletion :: "pystr option \<Rightarrow> service" where
  "failing_deletion t =
     (answering t)\<lparr>files_delete := (\<lambda>n. Inl (ExternalError (lit ''404 NOT_FOUND'')))\<rparr>"

text \<open>
  Answers of the model: the object of the specification, bare and inside either kind
  of fence; an object with each key missing; a score that is a JSON boolean; and
  suggestions with backticks written literally and as \<open>\u0060\<close> escapes.
\<close>

definition plain_answer :: pystr where
  \<open>plain_answer = lit ''{"matchScore": 88, "suggestions": "add X"}''\<close>

definition fenced_json_answer :: pystr where
  "fenced_json_answer = lit ''```json'' @ [10] @ plain_answer @ [10] @ lit ''```''"

definition fenced_answer :: pystr where
  "fenced_answer = lit ''```'' @ [10] @ plain_answer @ [10] @ lit ''```''"

definition score_only_answer :: pystr where
  \<open>score_only_answer = lit ''{"matchScore": 7}''\<close>

definition suggestions_only_answer :: pystr where
  \<open>suggestions_only_answer = lit ''{"suggestions": "add X"}''\<close>

definition boolean_score_answer :: pystr where
  \<open>boolean_score_answer = lit ''{"matchScore": true, "suggestions": "add X"}''\<close>

definition literal_fence_answer :: pystr where
  \<open>literal_fence_answer = lit ''{"matchScore": 88, "suggestions": "run ```pip``` first"}''\<close>

definition escaped_fence_answer :: pystr where
  \<open>escaped_fence_answer =
     lit ''{"matchScore": 88, "suggestions": "'' @ [92] @ lit ''u0060'' @ [92] @ lit ''u0060''
     @ [92] @ lit ''u0060"}''\<close>

section \<open>Basic facts\<close>

lemma pdf_request_valid: "\<not> invalid_file_type (content_type pdf_request)"
  by (simp add: pdf_request_def invalid_file_type_def startswith_def accepted_prefixes_def lit_def)



lemma deletions_append: "deletions (xs @ ys) = deletions xs @ deletions ys"
  by (induction xs rule: deletions.induct) simp_all

lemma handler_accepted:
  "\<not> invalid_file_type (content_type req) \<Longrightarrow>
   ats_optimize_resume client req = core_logic client req"
  by (simp add: ats_optimize_resume_def)

lemma core_read_fails:
  "file_read req = Inl e \<Longrightarrow>
   core_logic (Some c) req = (HTTPException 500 (service_error_detail @ exn_str e), [])"
  by (simp add: core_logic_def try_block_def finally_block_def except_block_def)

lemma core_upload_fails:
  "file_read req = Inr b \<Longrightarrow> files_upload c b (content_type req) = Inl e \<Longrightarrow>
   core_logic (Some c) req =
     (HTTPException 500 (service_error_detail @ exn_str e), [UploadCall b (content_type req)])"
  by (simp add: core_logic_def try_block_def finally_block_def except_block_def)

lemma core_uploaded:
  "file_read req = Inr b \<Longrightarrow> files_upload c b (content_type req) = Inr f \<Longrightarrow>
   core_logic (Some c) req =
     finally_block c (Some f)
       (except_block
          (case generate_content c model_name system_instruction
                  (prompt (job_title req) (job_description req)) f of
             Inl e \<Rightarrow> Inl e
           | Inr resp \<Rightarrow> parse_response (response_text resp)))
       [UploadCall b (content_type req),
        GenerateCall model_name system_instruction
          (prompt (job_title req) (job_description req)) f]"
  by (simp add: core_logic_def try_block_def Let_def split: sum.splits)

lemma finally_deletions:
  "deletions (snd (finally_block c (Some f) out calls)) = deletions calls @ [name f]"
  by (simp add: finally_block_def deletions_append split: sum.splits)

lemma finally_returns:
  "files_delete c (name f) = Inr u \<Longrightarrow>
   finally_block c (Some f) out calls = (out, calls @ [DeleteCall (name f)])"
  by (simp add: finally_block_def)

lemma finally_raises:
  "files_delete c (name f) = Inl e \<Longrightarrow>
   finally_block c (Some f) out calls = (Unhandled e, calls @ [DeleteCall (name f)])"
  by (simp add: finally_block_def)

lemma core_never_400: "fst (core_logic client req) \<noteq> HTTPException 400 d"
  by (auto simp: core_logic_def try_block_def finally_block_def except_block_def Let_def
      split: option.splits sum.splits prod.splits)

lemma core_answered:
  "file_read req = Inr b \<Longrightarrow> files_upload c b (content_type req) = Inr f \<Longrightarrow>
   generate_content c model_name system_instruction
     (prompt (job_title req) (job_description req)) f = Inr resp \<Longrightarrow>
   parse_response (response_text resp) = Inr res \<Longrightarrow>
   files_delete c (name f) = Inr () \<Longrightarrow>
   core_logic (Some c) req =
     (Returned res,
      [UploadCall b (content_type req),
       GenerateCall model_name system_instruction
         (prompt (job_title req) (job_description req)) f,
       DeleteCall (name f)])"
  by (simp add: core_uploaded finally_returns except_block_def)


text \<open>Unfolding rules for evaluating the examples.\<close>

lemmas example_defs = pdf_request_def png_request_def empty_type_request_def answering_def
  failing_upload_def failing_generation_def failing_deletion_def

lemmas str_eval = lit_def strip_fences_def strip_def isspace_def replace.simps

lemmas json_eval = json_loads_def json_ws_def cons_tok_def cons_str_def scan_literal_def
  match_number_def int_len_def frac_len_def exp_len_def span_digits_def is_digit_def
  decimal_def hexval_def unescape_def is_high_surrogate_def is_low_surrogate_def
  join_surrogates_def


section \<open>The example answers, evaluated\<close>

lemmas answer_defs = plain_answer_def fenced_json_answer_def fenced_answer_def
  score_only_answer_def suggestions_only_answer_def boolean_score_answer_def
  literal_fence_answer_def escaped_fence_answer_def






lemma loads_boolean:
  "json_loads (strip_fences boolean_score_answer) =
     Some (JDict [(lit ''matchScore'', JBool True), (lit ''suggestions'', JStr (lit ''add X''))])"
  by (simp add: answer_defs str_eval json_eval)






lemma parse_response_dict:
  "json_loads (strip_fences t) = Some (JDict d) \<Longrightarrow>
   as_int (dict_get d (lit ''matchScore'') (JInt 0)) = Some n \<Longrightarrow> 0 \<le> n \<Longrightarrow> n \<le> 100 \<Longrightarrow>
   parse_response (Some t) =
     Inr \<lparr>success = True, matchScore = dict_get d (lit ''matchScore'') (JInt 0),
          suggestions = dict_get d (lit ''suggestions'') (JStr default_suggestions)\<rparr>"
  by (simp add: parse_response_def parse_body_def Let_def)




lemma parse_response_boolean:
  "parse_response (Some boolean_score_answer) =
     Inr \<lparr>success = True, matchScore = JBool True, suggestions = JStr (lit ''add X'')\<rparr>"
  using parse_response_dict [of boolean_score_answer _ 1] loads_boolean
  by (simp add: dict_get_def lit_def)

lemma answering_returns:
  "parse_response (Some t) = Inr res \<Longrightarrow>
   fst (ats_optimize_resume (Some (answering (Some t))) pdf_request) = Returned res"
  using core_answered [of pdf_request "[37, 80, 68, 70]" "answering (Some t)"
      "\<lparr>name = Some (lit ''files/r1'')\<rparr>" "\<lparr>response_text = Some t\<rparr>" res]
    pdf_request_valid
  by (simp add: handler_accepted example_defs)

lemma returned_score_int_or_bool:
  "parse_response rt = Inr res \<Longrightarrow>
   (\<exists>n. matchScore res = JInt n \<and> 0 \<le> n \<and> n \<le> 100) \<or> (\<exists>b. matchScore res = JBool b)"
  by (auto simp: parse_response_def parse_body_def fallback_result_def Let_def
      split: option.splits sum.splits json.splits exn.splits if_splits
      elim!: as_int.elims)

lemma invalid_score_degrades:
  "json_loads (strip_fences t) = Some (JDict d) \<Longrightarrow>
   dict_get d (lit ''matchScore'') (JInt 0) = v \<Longrightarrow>
   (\<forall>b. v \<noteq> JBool b) \<Longrightarrow> (\<forall>n. v = JInt n \<longrightarrow> n < 0 \<or> 100 < n) \<Longrightarrow>
   parse_response (Some t) = Inr (fallback_result t)"
  by (cases v) (auto simp: parse_response_def parse_body_def Let_def)

section \<open>Mock mode\<close>

text \<open>
  Claim C3. When the client could not be constructed at start, every request whose
  media type passes the check returns \<open>success = True\<close>, \<open>matchScore = 75\<close> and the
  fixed suggestions text, which contains the marker \<open>MOCK DATA\<close>. The result is the
  same for every job title, job description and upload, and no call to the AI service
  is made.
\<close>

theorem mock_mode_fixed_result:
  "\<not> invalid_file_type (content_type req) \<Longrightarrow>
   ats_optimize_resume None req =
     (Returned \<lparr>success = True, matchScore = JInt 75, suggestions = JStr mock_suggestions\<rparr>, [])
   \<and> contains (lit ''MOCK DATA'') mock_suggestions"
  by (simp add: ats_optimize_resume_def core_logic_def mock_result_def mock_suggestions_def lit_def)

theorem mock_mode_fixed_result_witness:
  "\<not> invalid_file_type (content_type pdf_request) \<and>
   ats_optimize_resume None pdf_request =
     (Returned \<lparr>success = True, matchScore = JInt 75, suggestions = JStr mock_suggestions\<rparr>, [])
   \<and> contains (lit ''MOCK DATA'') mock_suggestions"
  using mock_mode_fixed_result [OF pdf_request_valid] pdf_request_valid by simp

section \<open>Validation of the media type\<close>

text \<open>
  Claim C7, as amended. A media type that is present, not empty and starts with neither
  accepted prefix makes the handler raise the 400 error, and no call to the AI service
  is made. When the media type is absent, or present but empty, the check is skipped:
  the handler does what it does for an accepted file, and its outcome is not a 400
  error.
\<close>

theorem unsupported_media_type_rejected:
  "(content_type req = Some m \<and> m \<noteq> [] \<and> \<not> startswith m accepted_prefixes
    \<longrightarrow> ats_optimize_resume client req =
          (HTTPException 400 (lit ''Invalid file type. Please upload a PDF or DOCX.''), []))
   \<and> (content_type req = None \<or> content_type req = Some []
    \<longrightarrow> ats_optimize_resume client req = core_logic client req
        \<and> (\<forall>d. fst (ats_optimize_resume client req) \<noteq> HTTPException 400 d))"
  by (auto simp: ats_optimize_resume_def invalid_file_type_def core_never_400)

theorem unsupported_media_type_rejected_witness:
  "ats_optimize_resume None png_request =
     (HTTPException 400 (lit ''Invalid file type. Please upload a PDF or DOCX.''), [])
   \<and> ats_optimize_resume None empty_type_request = core_logic None empty_type_request
   \<and> (\<forall>d. fst (ats_optimize_resume None empty_type_request) \<noteq> HTTPException 400 d)"
proof -
  have png: "content_type png_request = Some (lit ''image/png'')"
    by (simp add: example_defs)
  have bad: "lit ''image/png'' \<noteq> []" "\<not> startswith (lit ''image/png'') accepted_prefixes"
    by (simp_all add: startswith_def accepted_prefixes_def lit_def)
  have empty: "content_type empty_type_request = Some []"
    by (simp add: example_defs)
  show ?thesis
    using unsupported_media_type_rejected [of png_request "lit ''image/png''" None]
      unsupported_media_type_rejected [of empty_type_request "[]" None]
      png bad empty
    by blast
qed

text \<open>
  The claim as stated fails for a media type that is present but empty: it starts with
  neither prefix, yet the request is served, in mock mode with the mock result and
  otherwise with calls to the AI service.
\<close>

theorem empty_media_type_counterexample:
  "content_type empty_type_request = Some []
   \<and> \<not> startswith [] accepted_prefixes
   \<and> ats_optimize_resume None empty_type_request = (Returned mock_result, [])
   \<and> snd (ats_optimize_resume (Some (answering None)) empty_type_request) \<noteq> []"
  by (simp add: empty_type_request_def pdf_request_def ats_optimize_resume_def
      invalid_file_type_def startswith_def accepted_prefixes_def lit_def core_logic_def
      try_block_def finally_block_def answering_def Let_def)

section \<open>Release of the uploaded file\<close>

text \<open>
  Claim C1. With a client, when the upload call returned a file, the calls of the
  handler contain exactly one deletion, of that file, and it is the last call; this
  holds whatever the generation call, the parsing and the deletion itself do, so on
  the normal, the degraded and the exception exit. When no file was created (the file
  type was rejected, reading the upload raised, or the upload call raised) and in mock
  mode, no deletion is asked for.
\<close>

theorem upload_deleted_exactly_once:
  "(\<not> invalid_file_type (content_type req) \<and> file_read req = Inr b
      \<and> files_upload c b (content_type req) = Inr f
    \<longrightarrow> deletions (snd (ats_optimize_resume (Some c) req)) = [name f]
        \<and> last (snd (ats_optimize_resume (Some c) req)) = DeleteCall (name f))
   \<and> (invalid_file_type (content_type req) \<or> file_read req = Inl e
       \<or> (file_read req = Inr b \<and> files_upload c b (content_type req) = Inl e)
    \<longrightarrow> deletions (snd (ats_optimize_resume (Some c) req)) = [])
   \<and> deletions (snd (ats_optimize_resume None req)) = []"
proof (intro conjI impI)
  assume a: "\<not> invalid_file_type (content_type req) \<and> file_read req = Inr b
      \<and> files_upload c b (content_type req) = Inr f"
  then have eq: "ats_optimize_resume (Some c) req = core_logic (Some c) req"
    by (simp add: handler_accepted)
  from a show "deletions (snd (ats_optimize_resume (Some c) req)) = [name f]"
    unfolding eq by (simp add: core_uploaded finally_deletions)
  from a show "last (snd (ats_optimize_resume (Some c) req)) = DeleteCall (name f)"
    unfolding eq by (simp add: core_uploaded finally_block_def split: sum.splits)
next
  assume "invalid_file_type (content_type req) \<or> file_read req = Inl e
       \<or> (file_read req = Inr b \<and> files_upload c b (content_type req) = Inl e)"
  then show "deletions (snd (ats_optimize_resume (Some c) req)) = []"
    by (auto simp: ats_optimize_resume_def core_read_fails core_upload_fails)
next
  show "deletions (snd (ats_optimize_resume None req)) = []"
    by (simp add: ats_optimize_resume_def core_logic_def)
qed

theorem upload_deleted_exactly_once_witness:
  "deletions (snd (ats_optimize_resume (Some failing_generation) pdf_request))
     = [Some (lit ''files/r1'')]
   \<and> last (snd (ats_optimize_resume (Some failing_generation) pdf_request))
     = DeleteCall (Some (lit ''files/r1''))
   \<and> deletions (snd (ats_optimize_resume (Some failing_upload) pdf_request)) = []"
  using upload_deleted_exactly_once [of pdf_request "[37, 80, 68, 70]" failing_generation
      "\<lparr>name = Some (lit ''files/r1'')\<rparr>" "ExternalError []"]
    upload_deleted_exactly_once [of pdf_request "[37, 80, 68, 70]" failing_upload
      "\<lparr>name = None\<rparr>" "ExternalError (lit ''401 UNAUTHENTICATED'')"]
    pdf_request_valid
  by (simp add: example_defs)

section \<open>Failures of the AI service\<close>



text \<open>
  Claim C9. When a file was uploaded and its deletion raises, that exception leaves the
  handler unhandled, whatever result or exception was pending: the handler returns no
  result.
\<close>

theorem cleanup_failure_propagates:
  "\<not> invalid_file_type (content_type req) \<Longrightarrow> file_read req = Inr b \<Longrightarrow>
   files_upload c b (content_type req) = Inr f \<Longrightarrow> files_delete c (name f) = Inl e \<Longrightarrow>
   fst (ats_optimize_resume (Some c) req) = Unhandled e
   \<and> (\<forall>r. fst (ats_optimize_resume (Some c) req) \<noteq> Returned r)"
  by (simp add: handler_accepted core_uploaded finally_raises)

theorem cleanup_failure_propagates_witness:
  "fst (ats_optimize_resume (Some (failing_deletion (Some (lit ''{}'')))) pdf_request)
     = Unhandled (ExternalError (lit ''404 NOT_FOUND''))
   \<and> (\<forall>r. fst (ats_optimize_resume (Some (failing_deletion (Some (lit ''{}'')))) pdf_request)
          \<noteq> Returned r)"
  using cleanup_failure_propagates [of pdf_request "[37, 80, 68, 70]"
      "failing_deletion (Some (lit ''{}''))" "\<lparr>name = Some (lit ''files/r1'')\<rparr>"
      "ExternalError (lit ''404 NOT_FOUND'')"]
    pdf_request_valid
  by (simp add: example_defs)

section \<open>Parsing the answer of the model\<close>





section \<open>A score that is a JSON boolean\<close>

text \<open>
  Claim C2 says that the \<open>matchScore\<close> of every returned result is an integer between
  0 and 100. The check \<open>isinstance(match_score, int)\<close> accepts \<open>True\<close> and \<open>False\<close>,
  \<open>bool\<close> being a subclass of \<open>int\<close>: for the answer
  \<open>{"matchScore": true, "suggestions": "add X"}\<close> the handler returns the boolean
  \<open>True\<close> as score. (Every returned score is an integer between 0 and 100 or a
  boolean: \<open>returned_score_int_or_bool\<close>.)
\<close>

theorem boolean_score_returned:
  "fst (ats_optimize_resume (Some (answering (Some boolean_score_answer))) pdf_request) =
     Returned \<lparr>success = True, matchScore = JBool True, suggestions = JStr (lit ''add X'')\<rparr>"
  by (simp add: answering_returns parse_response_boolean)

text \<open>
  Claim C5 says that a score of the wrong type is treated as a parse failure. For the
  same answer, whose score is a JSON boolean, steps 6 and 7 give the parsed values and
  not the result of a parse failure. (A score that is no boolean and no integer
  between 0 and 100 does give the result of a parse failure:
  \<open>invalid_score_degrades\<close>.)
\<close>

theorem boolean_score_not_parse_failure:
  "parse_response (Some boolean_score_answer) =
     Inr \<lparr>success = True, matchScore = JBool True, suggestions = JStr (lit ''add X'')\<rparr>
   \<and> parse_response (Some boolean_score_answer) \<noteq> Inr (fallback_result boolean_score_answer)"
  by (simp add: parse_response_boolean fallback_result_def)

section \<open>Removal of the fence markers\<close>













section \<open>The strings of a decoded text without escapes\<close>






















section \<open>Fence markers in the returned suggestions\<close>




end
